theory Spec2Isabelle
  imports Main
begin

section \<open>Python exceptions\<close>

text \<open>
  The notebook \<^verbatim>\<open>08-BingChatClone.ipynb\<close> raises and catches Python exceptions. An
  exception class is one of the built-in classes the notebook can meet, or a class defined
  by a library on top of one of them (\<open>Derived name base\<close>: langchain's and openai's own
  error classes). \<open>mro\<close> is the linearised chain of superclasses, the class itself first.
\<close>

datatype py_class =
    BaseException
  | SystemExit
  | KeyboardInterrupt
  | GeneratorExit
  | Exception
  | LookupError
  | KeyError
  | OSError
  | ConnectionError
  | RuntimeError
  | NotImplementedError
  | ValueError
  | NameError
  | Derived string py_class

fun mro :: "py_class \<Rightarrow> py_class list" where
  "mro BaseException = [BaseException]"
| "mro SystemExit = [SystemExit, BaseException]"
| "mro KeyboardInterrupt = [KeyboardInterrupt, BaseException]"
| "mro GeneratorExit = [GeneratorExit, BaseException]"
| "mro Exception = [Exception, BaseException]"
| "mro LookupError = [LookupError, Exception, BaseException]"
| "mro KeyError = [KeyError, LookupError, Exception, BaseException]"
| "mro OSError = [OSError, Exception, BaseException]"
| "mro ConnectionError = [ConnectionError, OSError, Exception, BaseException]"
| "mro RuntimeError = [RuntimeError, Exception, BaseException]"
| "mro NotImplementedError = [NotImplementedError, RuntimeError, Exception, BaseException]"
| "mro ValueError = [ValueError, Exception, BaseException]"
| "mro NameError = [NameError, Exception, BaseException]"
| "mro (Derived n b) = Derived n b # mro b"

text \<open>
  An exception object: its class and the text that \<^verbatim>\<open>str(e)\<close> gives for it.
\<close>

datatype py_exc = PyExc (exc_class: py_class) (str: string)

definition isinstance :: "py_exc \<Rightarrow> py_class \<Rightarrow> bool" where
  "isinstance e c = (c \<in> set (mro (exc_class e)))"

section \<open>The process and the external collaborators\<close>

text \<open>
  Library code (the search client, the LLM client, the agent executor) runs against the
  process state: the environment variables \<^verbatim>\<open>os.environ\<close> and everything outside the
  notebook (network, remote services), which stays abstract as \<open>'x\<close>. A call of library
  code takes the process state and returns either the raised exception (\<open>Inl\<close>) or the
  returned value (\<open>Inr\<close>), together with the process state it leaves behind.
\<close>

record 'x process =
  environ :: "string \<rightharpoonup> string"
  outside :: 'x

type_synonym ('a, 'x) call = "'x process \<Rightarrow> (py_exc + 'a) \<times> 'x process"

text \<open>
  One record of a search result as the search client returns it: a Python dict from field
  names to strings.
\<close>

type_synonym search_record = "string \<rightharpoonup> string"

text \<open>
  langchain's \<^verbatim>\<open>BingSearchAPIWrapper\<close> is not part of the notebook; it is a parameter:
  the constructor \<^verbatim>\<open>BingSearchAPIWrapper(k=...)\<close> and the method
  \<^verbatim>\<open>results(query, num_results=...)\<close> of the object it builds (of type \<open>'b\<close>).
\<close>

record ('b, 'x) bing_api =
  BingSearchAPIWrapper :: "int \<Rightarrow> ('b, 'x) call"
  results :: "'b \<Rightarrow> string \<Rightarrow> int \<Rightarrow> (search_record list, 'x) call"

section \<open>The search tool \<^verbatim>\<open>MyBingSearch\<close>\<close>

text \<open>
  \<^verbatim>\<open>
  class MyBingSearch(BaseTool):
      name = "@bing"
      description = "useful when the questions includes the term: @bing.\n"
      k: int = 5
      def _run(self, query: str) -> str:
          bing = BingSearchAPIWrapper(k=self.k)
          return bing.results(query,num_results=self.k)
      async def _arun(self, query: str) -> str:
          raise NotImplementedError("This Tool does not support async")
  \<close>
\<close>

record MyBingSearch =
  name :: string
  description :: string
  k :: int

text \<open>The constructor \<^verbatim>\<open>MyBingSearch(k=...)\<close>; \<open>None\<close> is the call without \<open>k\<close>.\<close>

definition MyBingSearch_init :: "int option \<Rightarrow> MyBingSearch" where
  "MyBingSearch_init kw =
     \<lparr> name = ''@bing'',
       description = ''useful when the questions includes the term: @bing.'' @ [CHR 0x0A],
       k = (case kw of None \<Rightarrow> 5 | Some n \<Rightarrow> n) \<rparr>"

text \<open>
  \<open>MyBingSearch_run\<close> is the method \<^verbatim>\<open>_run\<close>. \<open>MyBingSearch_arun\<close> is the method
  \<^verbatim>\<open>_arun\<close> once awaited, that is the body of the coroutine; it calls nothing.
\<close>

definition MyBingSearch_run ::
  "('b, 'x, 'z) bing_api_scheme \<Rightarrow> MyBingSearch \<Rightarrow> string \<Rightarrow> (search_record list, 'x) call" where
  "MyBingSearch_run api self query p =
     (case BingSearchAPIWrapper api (k self) p of
        (Inl e, p1) \<Rightarrow> (Inl e, p1)
      | (Inr bing, p1) \<Rightarrow> results api bing query (k self) p1)"

definition MyBingSearch_arun :: "MyBingSearch \<Rightarrow> string \<Rightarrow> (search_record list, 'x) call" where
  "MyBingSearch_arun self query p =
     (Inl (PyExc NotImplementedError ''This Tool does not support async''), p)"

text \<open>
  A method call on a tool object, as the agent issues them. Python passes the object by
  reference; neither method assigns to an attribute of \<open>self\<close>, so a call leaves the object
  as it was and changes the process state only. \<open>returned\<close> collects what the calls
  returned or raised, in order.
\<close>

datatype invocation = Sync string | Async string

record ('x) tool_session =
  tool :: MyBingSearch
  tool_proc :: "'x process"
  returned :: "(py_exc + search_record list) list"

fun invoke ::
  "('b, 'x, 'z) bing_api_scheme \<Rightarrow> 'x tool_session \<Rightarrow> invocation \<Rightarrow> 'x tool_session" where
  "invoke api s (Sync query) =
     (case MyBingSearch_run api (tool s) query (tool_proc s) of
        (r, p') \<Rightarrow> s\<lparr>tool_proc := p', returned := returned s @ [r]\<rparr>)"
| "invoke api s (Async query) =
     (case MyBingSearch_arun (tool s) query (tool_proc s) of
        (r, p') \<Rightarrow> s\<lparr>tool_proc := p', returned := returned s @ [r]\<rparr>)"

definition invoke_all ::
  "('b, 'x, 'z) bing_api_scheme \<Rightarrow> 'x tool_session \<Rightarrow> invocation list \<Rightarrow> 'x tool_session" where
  "invoke_all api s invs = foldl (invoke api) s invs"

section \<open>The notebook\<close>

text \<open>
  The notebook's own state: the global \<^verbatim>\<open>response\<close> (\<open>None\<close> while it is unbound), the
  loop variable \<^verbatim>\<open>i\<close>, what \<^verbatim>\<open>display\<close> has shown so far, and the process state.
  \<open>attempts\<close> is not a variable of the notebook: it counts the calls of
  \<^verbatim>\<open>agent_executor.run\<close> made so far.
\<close>

record 'x notebook =
  response :: "string option"
  loop_i :: "nat option"
  displayed :: "string list"
  attempts :: nat
  proc :: "'x process"

subsection \<open>Rendering\<close>

text \<open>
  Python's \<^verbatim>\<open>str.replace(old, new)\<close>: occurrences of \<open>old\<close> are replaced from left to
  right, without overlap; an empty \<open>old\<close> matches before every character and at the end.
\<close>

function py_replace :: "string \<Rightarrow> string \<Rightarrow> string \<Rightarrow> string" where
  "py_replace old new s =
     (if old = [] then new @ concat (map (\<lambda>c. c # new) s)
      else if s = [] then []
      else if take (length old) s = old then new @ py_replace old new (drop (length old) s)
      else hd s # py_replace old new (tl s))"
  by pat_completeness auto
termination
  by (relation "measure (\<lambda>(old, new, s). length s)") auto

declare py_replace.simps [simp del]

text \<open>
  \<^verbatim>\<open>
  def printmd(string):
      display(Markdown(string.replace("$","USD ")))
  \<close>
  \<^verbatim>\<open>Markdown\<close> and \<^verbatim>\<open>display\<close> are IPython's. The constructor \<^verbatim>\<open>Markdown\<close> is a
  parameter: given a string it builds the display object, which may hold the string itself
  or text loaded from elsewhere (IPython takes a string that starts with \<^verbatim>\<open>http\<close> as a
  URL to download, and a string that names an existing path as a file to read), or it
  raises. Its result here is the text the object holds; \<^verbatim>\<open>display\<close> shows that text.
  A fault of the constructor leaves \<^verbatim>\<open>printmd\<close> uncaught, and nothing is displayed.
\<close>

type_synonym 'x markdown = "string \<Rightarrow> (string, 'x) call"

definition printmd :: "'x markdown \<Rightarrow> string \<Rightarrow> 'x notebook \<Rightarrow> py_exc option \<times> 'x notebook" where
  "printmd Markdown string s =
     (case Markdown (py_replace ''$'' ''USD '' string) (proc s) of
        (Inl e, p') \<Rightarrow> (Some e, s\<lparr>proc := p'\<rparr>)
      | (Inr shown, p') \<Rightarrow> (None, s\<lparr>displayed := displayed s @ [shown], proc := p'\<rparr>))"

text \<open>The cell \<^verbatim>\<open>printmd(response)\<close>; reading an unbound global raises \<open>NameError\<close>.\<close>

definition printmd_response :: "'x markdown \<Rightarrow> 'x notebook \<Rightarrow> py_exc option \<times> 'x notebook" where
  "printmd_response Markdown s =
     (case response s of
        None \<Rightarrow> (Some (PyExc NameError ''name 'response' is not defined''), s)
      | Some r \<Rightarrow> printmd Markdown r s)"

subsection \<open>The retry loop\<close>

text \<open>
  \<^verbatim>\<open>
  for i in range(2):            # range(3) in the second cell
      try:
          response = agent_executor.run(QUESTION)
          break
      except Exception as e:
          response = str(e)
          continue
  \<close>
  The agent executor is langchain's; its \<^verbatim>\<open>run\<close> is a parameter. The loop runs over the
  values of \<^verbatim>\<open>range(n)\<close>. The result is the exception that left the loop uncaught, if
  any, and the state the loop leaves.
\<close>

type_synonym 'x agent_run = "string \<Rightarrow> (string, 'x) call"

fun retry_loop ::
  "'x agent_run \<Rightarrow> string \<Rightarrow> nat list \<Rightarrow> 'x notebook \<Rightarrow> py_exc option \<times> 'x notebook" where
  "retry_loop run QUESTION [] s = (None, s)"
| "retry_loop run QUESTION (i # rest) s =
     (let s1 = s\<lparr>loop_i := Some i, attempts := Suc (attempts s)\<rparr> in
      case run QUESTION (proc s1) of
        (Inr v, p') \<Rightarrow> (None, s1\<lparr>response := Some v, proc := p'\<rparr>)
      | (Inl e, p') \<Rightarrow>
          if isinstance e Exception
          then retry_loop run QUESTION rest (s1\<lparr>response := Some (str e), proc := p'\<rparr>)
          else (Some e, s1\<lparr>proc := p'\<rparr>))"

text \<open>\<^verbatim>\<open>range(n)\<close> with one argument.\<close>

definition py_range :: "nat \<Rightarrow> nat list" where
  "py_range n = [0..<n]"

definition retry_cell_1 :: "'x agent_run \<Rightarrow> string \<Rightarrow> 'x notebook \<Rightarrow> py_exc option \<times> 'x notebook" where
  "retry_cell_1 run QUESTION s = retry_loop run QUESTION (py_range 2) s"

definition retry_cell_2 :: "'x agent_run \<Rightarrow> string \<Rightarrow> 'x notebook \<Rightarrow> py_exc option \<times> 'x notebook" where
  "retry_cell_2 run QUESTION s = retry_loop run QUESTION (py_range 3) s"

text \<open>
  What \<open>n\<close> consecutive calls \<^verbatim>\<open>agent_executor.run(QUESTION)\<close> return or raise, starting
  in process state \<open>p\<close>, and the process state they leave.
\<close>

fun attempt_outcomes :: "'x agent_run \<Rightarrow> string \<Rightarrow> nat \<Rightarrow> 'x process \<Rightarrow> (py_exc + string) list" where
  "attempt_outcomes run QUESTION 0 p = []"
| "attempt_outcomes run QUESTION (Suc n) p =
     (case run QUESTION p of (r, p') \<Rightarrow> r # attempt_outcomes run QUESTION n p')"

fun proc_after :: "'x agent_run \<Rightarrow> string \<Rightarrow> nat \<Rightarrow> 'x process \<Rightarrow> 'x process" where
  "proc_after run QUESTION 0 p = p"
| "proc_after run QUESTION (Suc n) p = proc_after run QUESTION n (snd (run QUESTION p))"

subsection \<open>Composition\<close>

text \<open>
  The other collaborators, langchain's as well: the LLM client \<^verbatim>\<open>AzureChatOpenAI\<close> (an
  object of type \<open>'l\<close>) and \<^verbatim>\<open>initialize_agent\<close>, which gets the tools and builds the
  agent executor. The agent sees a tool through the \<^verbatim>\<open>BaseTool\<close> interface.
\<close>

record llm_args =
  deployment_name :: string
  temperature :: int
  max_tokens :: int
  streaming :: bool

record 'x base_tool =
  tool_name :: string
  tool_description :: string
  tool_run :: "string \<Rightarrow> (search_record list, 'x) call"
  tool_arun :: "string \<Rightarrow> (search_record list, 'x) call"

record 'x agent_executor =
  executor_run :: "'x agent_run"
  prompt_template :: string

record ('b, 'l, 'x) langchain = "('b, 'x) bing_api" +
  AzureChatOpenAI :: "llm_args \<Rightarrow> ('l, 'x) call"
  initialize_agent :: "'x base_tool list \<Rightarrow> 'l \<Rightarrow> string \<Rightarrow> ('x agent_executor, 'x) call"

definition as_base_tool :: "('b, 'x, 'z) bing_api_scheme \<Rightarrow> MyBingSearch \<Rightarrow> 'x base_tool" where
  "as_base_tool api self =
     \<lparr> tool_name = name self,
       tool_description = description self,
       tool_run = MyBingSearch_run api self,
       tool_arun = MyBingSearch_arun self \<rparr>"

definition MODEL_DEPLOYMENT_NAME :: string where
  "MODEL_DEPLOYMENT_NAME = ''gpt-4-32k''"

definition QUESTION_1 :: string where
  "QUESTION_1 =
     ''Create a list with the main facts on What is happening with the oil supply in the world right now?''"

definition QUESTION_2 :: string where
  "QUESTION_2 =
     ''in target.com, find how what's the price of a Nesspresso coffee machine and of a Keurig coffee machine''"

text \<open>
  \<^verbatim>\<open>os.environ[dst] = os.environ[src]\<close>: reading a variable that is not set raises
  \<open>KeyError\<close>, whose \<^verbatim>\<open>str\<close> is the quoted name.
\<close>

definition copy_environ :: "string \<Rightarrow> string \<Rightarrow> 'x process \<Rightarrow> py_exc option \<times> 'x process" where
  "copy_environ dst src p =
     (case environ p src of
        None \<Rightarrow> (Some (PyExc KeyError ([CHR 0x27] @ src @ [CHR 0x27])), p)
      | Some v \<Rightarrow> (None, p\<lparr>environ := (environ p)(dst \<mapsto> v)\<rparr>))"

text \<open>
  \<^verbatim>\<open>
  os.environ["OPENAI_API_BASE"] = os.environ["AZURE_OPENAI_ENDPOINT"]
  os.environ["OPENAI_API_KEY"] = os.environ["AZURE_OPENAI_API_KEY"]
  os.environ["OPENAI_API_VERSION"] = os.environ["AZURE_OPENAI_API_VERSION"]
  os.environ["OPENAI_API_TYPE"] = "azure"
  \<close>
\<close>

definition set_env_variables :: "'x process \<Rightarrow> py_exc option \<times> 'x process" where
  "set_env_variables p =
     (case copy_environ ''OPENAI_API_BASE'' ''AZURE_OPENAI_ENDPOINT'' p of
        (Some e, p1) \<Rightarrow> (Some e, p1)
      | (None, p1) \<Rightarrow>
     (case copy_environ ''OPENAI_API_KEY'' ''AZURE_OPENAI_API_KEY'' p1 of
        (Some e, p2) \<Rightarrow> (Some e, p2)
      | (None, p2) \<Rightarrow>
     (case copy_environ ''OPENAI_API_VERSION'' ''AZURE_OPENAI_API_VERSION'' p2 of
        (Some e, p3) \<Rightarrow> (Some e, p3)
      | (None, p3) \<Rightarrow>
          (None, p3\<lparr>environ := (environ p3)(''OPENAI_API_TYPE'' \<mapsto> ''azure'')\<rparr>))))"

text \<open>
  One cell after another: a cell that ends with an uncaught exception ends the run.
\<close>

definition then_cell ::
  "py_exc option \<times> 's \<Rightarrow> ('s \<Rightarrow> py_exc option \<times> 's) \<Rightarrow> py_exc option \<times> 's" where
  "then_cell r cell = (case r of (Some e, s) \<Rightarrow> (Some e, s) | (None, s) \<Rightarrow> cell s)"

text \<open>The notebook's state when the kernel starts in process state \<open>p\<close>.\<close>

definition fresh_notebook :: "'x process \<Rightarrow> 'x notebook" where
  "fresh_notebook p = \<lparr> response = None, loop_i = None, displayed = [], attempts = 0, proc = p \<rparr>"

text \<open>
  The composition cells, from the process state \<open>p0\<close> that
  \<^verbatim>\<open>load_dotenv("my_credentials.env")\<close> leaves: the environment mapping, the two
  constructions of \<^verbatim>\<open>llm\<close> (the second replaces the first),
  \<^verbatim>\<open>tools = [MyBingSearch(k=5)]\<close> and \<^verbatim>\<open>initialize_agent\<close>. None of them is inside a
  \<^verbatim>\<open>try\<close>. The callback handler and manager only print the streamed text and are left
  out.
\<close>

definition bootstrap ::
  "('b, 'l, 'x, 'z) langchain_scheme \<Rightarrow> string \<Rightarrow> ('x agent_executor, 'x) call" where
  "bootstrap lc BING_PROMPT_PREFIX p0 =
     (case set_env_variables p0 of
        (Some e, p1) \<Rightarrow> (Inl e, p1)
      | (None, p1) \<Rightarrow>
     (case AzureChatOpenAI lc
             \<lparr> deployment_name = MODEL_DEPLOYMENT_NAME, temperature = 0, max_tokens = 1000,
               streaming = False \<rparr> p1 of
        (Inl e, p2) \<Rightarrow> (Inl e, p2)
      | (Inr _, p2) \<Rightarrow>
     (case AzureChatOpenAI lc
             \<lparr> deployment_name = MODEL_DEPLOYMENT_NAME, temperature = 0, max_tokens = 1000,
               streaming = True \<rparr> p2 of
        (Inl e, p3) \<Rightarrow> (Inl e, p3)
      | (Inr llm, p3) \<Rightarrow>
          initialize_agent lc [as_base_tool lc (MyBingSearch_init (Some 5))] llm
            BING_PROMPT_PREFIX p3)))"

text \<open>
  The code cells of the notebook in order: the composition, then the two retry cells, each
  followed by \<^verbatim>\<open>printmd(response)\<close>, and last the \<^verbatim>\<open>printmd\<close> of the prompt template.
\<close>

definition run_all ::
  "('b, 'l, 'x, 'z) langchain_scheme \<Rightarrow> 'x markdown \<Rightarrow> string \<Rightarrow> 'x process \<Rightarrow>
     py_exc option \<times> 'x notebook" where
  "run_all lc Markdown BING_PROMPT_PREFIX p0 =
     (case bootstrap lc BING_PROMPT_PREFIX p0 of
        (Inl e, p) \<Rightarrow> (Some e, fresh_notebook p)
      | (Inr agent, p) \<Rightarrow>
          then_cell (retry_cell_1 (executor_run agent) QUESTION_1 (fresh_notebook p)) (\<lambda>s.
          then_cell (printmd_response Markdown s) (\<lambda>s.
          then_cell (retry_cell_2 (executor_run agent) QUESTION_2 s) (\<lambda>s.
          then_cell (printmd_response Markdown s) (\<lambda>s.
          printmd Markdown (prompt_template agent) s)))))"

subsection \<open>The contract of the search client\<close>

text \<open>
  Modelled from the spec: the search client is langchain's and its code is not part of the
  notebook. The spec's data model has a search result as an ordered sequence of records,
  each with a title, a snippet and a url, its count bounded by the configured limit; this
  is what the client's \<^verbatim>\<open>results\<close> is taken to return when asked for \<open>n\<close> results.
\<close>

definition search_contract :: "('b, 'x, 'z) bing_api_scheme \<Rightarrow> bool" where
  "search_contract api =
     (\<forall>bing query n p rs p'. results api bing query n p = (Inr rs, p') \<longrightarrow>
        length rs \<le> nat n \<and> (\<forall>r \<in> set rs. {''title'', ''snippet'', ''url''} \<subseteq> dom r))"

section \<open>Example collaborators\<close>

text \<open>
  Concrete stand-ins for the library code, to run the notebook's code on. The outside world
  of \<open>example_langchain\<close> is the log of the search calls made: the query and the
  \<^verbatim>\<open>num_results\<close> of each, in order. Its search client needs the subscription key in the
  environment when it is constructed, as langchain's does; \<open>results\<close> logs the call and
  then raises or returns what \<open>outcome\<close> says, at most \<^verbatim>\<open>num_results\<close> records. Its agent
  hands the question to its first tool and answers with the titles found; a fault of the
  tool leaves \<^verbatim>\<open>run\<close> as it was raised.
\<close>

type_synonym search_log = "(string \<times> int) list"

definition web_page :: "string \<Rightarrow> string \<Rightarrow> string \<Rightarrow> search_record" where
  "web_page t sn u = [''title'' \<mapsto> t, ''snippet'' \<mapsto> sn, ''url'' \<mapsto> u]"

definition two_pages :: "search_record list" where
  "two_pages =
     [web_page ''Oil market report'' ''Supply rose in May'' ''https://example.org/a'',
      web_page ''Crude prices'' ''Prices fell'' ''https://example.org/b'']"

definition relay_agent :: "'x base_tool list \<Rightarrow> 'x agent_run" where
  "relay_agent tools QUESTION p =
     (case tools of
        [] \<Rightarrow> (Inr ''I have no tools'', p)
      | t # _ \<Rightarrow>
          (case tool_run t QUESTION p of
             (Inl e, p') \<Rightarrow> (Inl e, p')
           | (Inr rs, p') \<Rightarrow>
               (Inr (concat (map (\<lambda>r. case r ''title'' of None \<Rightarrow> [] | Some t \<Rightarrow> t @ ''; '') rs)),
                p')))"

definition example_langchain ::
  "(py_exc + search_record list) \<Rightarrow> (string, unit, search_log) langchain" where
  "example_langchain outcome =
     \<lparr> BingSearchAPIWrapper = (\<lambda>n p.
         case environ p ''BING_SUBSCRIPTION_KEY'' of
           None \<Rightarrow> (Inl (PyExc ValueError ''Did not find bing_subscription_key''), p)
         | Some key \<Rightarrow> (Inr key, p)),
       results = (\<lambda>bing query n p.
         (case outcome of Inl e \<Rightarrow> Inl e | Inr rs \<Rightarrow> Inr (take (nat n) rs),
          p\<lparr>outside := outside p @ [(query, n)]\<rparr>)),
       AzureChatOpenAI = (\<lambda>args p. (Inr (), p)),
       initialize_agent = (\<lambda>tools llm prefix p.
         (Inr \<lparr> executor_run = relay_agent tools, prompt_template = prefix \<rparr>, p)) \<rparr>"

text \<open>
  Two process states: one with the key of the search service only, one with the three
  variables of the LLM service only.
\<close>

definition with_search_key :: "search_log process" where
  "with_search_key = \<lparr> environ = [''BING_SUBSCRIPTION_KEY'' \<mapsto> ''0123''], outside = [] \<rparr>"

definition with_llm_credentials :: "search_log process" where
  "with_llm_credentials =
     \<lparr> environ = [''AZURE_OPENAI_ENDPOINT'' \<mapsto> ''https://example.openai.azure.com/'',
                  ''AZURE_OPENAI_API_KEY'' \<mapsto> ''4567'',
                  ''AZURE_OPENAI_API_VERSION'' \<mapsto> ''2023-05-15''],
       outside = [] \<rparr>"

text \<open>
  A process state with no variable set, and the collaborators with an LLM client whose
  constructor refuses its configuration, at the construction with the given
  \<^verbatim>\<open>streaming\<close> flag.
\<close>

definition bare :: "search_log process" where
  "bare = \<lparr> environ = Map.empty, outside = [] \<rparr>"

definition refusing_llm :: "bool \<Rightarrow> (string, unit, search_log) langchain" where
  "refusing_llm flag =
     (example_langchain (Inr two_pages))
       \<lparr> AzureChatOpenAI := (\<lambda>args p.
           if streaming args = flag
           then (Inl (PyExc ValueError ''Invalid API configuration''), p)
           else (Inr (), p)) \<rparr>"

text \<open>
  Collaborators whose LLM client is built whatever the key, and whose agent is refused by the
  LLM service at every call unless the key is the right one; and a process state in which
  every variable is set, the key of the LLM service to a wrong value.
\<close>

definition authenticating_agent :: "'x base_tool list \<Rightarrow> 'x agent_run" where
  "authenticating_agent tools QUESTION p =
     (if environ p ''OPENAI_API_KEY'' = Some ''4567''
      then relay_agent tools QUESTION p
      else (Inl (PyExc (Derived ''AuthenticationError'' Exception) ''Incorrect API key provided''),
            p))"

definition authenticating_langchain :: "(string, unit, search_log) langchain" where
  "authenticating_langchain =
     (example_langchain (Inr two_pages))
       \<lparr> initialize_agent := (\<lambda>tools llm prefix p.
           (Inr \<lparr> executor_run = authenticating_agent tools, prompt_template = prefix \<rparr>, p)) \<rparr>"

definition with_wrong_llm_key :: "search_log process" where
  "with_wrong_llm_key =
     \<lparr> environ = [''AZURE_OPENAI_ENDPOINT'' \<mapsto> ''https://example.openai.azure.com/'',
                  ''AZURE_OPENAI_API_KEY'' \<mapsto> ''wrong'',
                  ''AZURE_OPENAI_API_VERSION'' \<mapsto> ''2023-05-15'',
                  ''BING_SUBSCRIPTION_KEY'' \<mapsto> ''0123''],
       outside = [] \<rparr>"

text \<open>
  A stand-in for IPython's \<^verbatim>\<open>Markdown\<close>, after its constructor: a string that starts with
  \<^verbatim>\<open>http\<close> is downloaded (\<open>fetch\<close> says what the download raises or gives), a string that
  names an existing path is read (\<open>files\<close> says which paths exist and what reading them
  raises or gives), and any other string is the text itself. \<open>offline\<close> has no network,
  and \<open>one_file\<close> is a working directory with the file \<^verbatim>\<open>price.txt\<close>.
\<close>

definition ipython_Markdown ::
  "(string \<Rightarrow> py_exc + string) \<Rightarrow> (string \<rightharpoonup> py_exc + string) \<Rightarrow> 'x markdown" where
  "ipython_Markdown fetch files data p =
     (if take 4 data = ''http'' then (fetch data, p)
      else case files data of
             Some r \<Rightarrow> (r, p)
           | None \<Rightarrow> (Inr data, p))"

definition offline :: "string \<Rightarrow> py_exc + string" where
  "offline url = Inl (PyExc (Derived ''URLError'' OSError) ''<urlopen error>'')"

definition one_file :: "string \<rightharpoonup> py_exc + string" where
  "one_file = [''price.txt'' \<mapsto> Inr ''$100'']"

text \<open>
  An agent that plays back a script: the outside world is the list of what the coming calls
  of \<^verbatim>\<open>run\<close> raise or return; once the script is used up it answers with the question.
\<close>

definition scripted_agent :: "(py_exc + string) list agent_run" where
  "scripted_agent QUESTION p =
     (case outside p of
        [] \<Rightarrow> (Inr QUESTION, p)
      | r # script \<Rightarrow> (r, p\<lparr>outside := script\<rparr>))"

definition scripted :: "(py_exc + string) list \<Rightarrow> (py_exc + string) list notebook" where
  "scripted script = fresh_notebook \<lparr> environ = Map.empty, outside = script \<rparr>"

section \<open>The retry loop: proofs\<close>

lemma length_attempt_outcomes: "length (attempt_outcomes run q n p) = n"
  by (induction n arbitrary: p) (auto split: prod.splits)

text \<open>
  When every pass of the loop meets a fault derived from \<open>Exception\<close>, the loop runs over
  all of its index list.
\<close>

lemma retry_loop_all_fault:
  "length es = length js \<Longrightarrow>
   attempt_outcomes run q (length js) (proc s) = map Inl es \<Longrightarrow>
   \<forall>e\<in>set es. isinstance e Exception \<Longrightarrow>
   fst (retry_loop run q js s) = None \<and>
   attempts (snd (retry_loop run q js s)) = attempts s + length js \<and>
   response (snd (retry_loop run q js s)) = (if es = [] then response s else Some (str (last es))) \<and>
   proc (snd (retry_loop run q js s)) = proc_after run q (length js) (proc s)"
proof (induction js arbitrary: s es)
  case Nil
  then show ?case by simp
next
  case (Cons j js)
  then obtain e es' where es: "es = e # es'" by (cases es) auto
  obtain r p' where rp: "run q (proc s) = (r, p')" by (cases "run q (proc s)")
  from Cons.prems(2) es rp have r: "r = Inl e"
    and tl: "attempt_outcomes run q (length js) p' = map Inl es'"
    by auto
  from Cons.prems(3) es have exc: "isinstance e Exception"
    and rest: "\<forall>e\<in>set es'. isinstance e Exception"
    by auto
  let ?s2 = "s\<lparr>loop_i := Some j, attempts := Suc (attempts s), response := Some (str e), proc := p'\<rparr>"
  have step: "retry_loop run q (j # js) s = retry_loop run q js ?s2"
    using rp r exc by (simp add: Let_def)
  have len: "length es' = length js" using Cons.prems(1) es by simp
  have tl': "attempt_outcomes run q (length js) (proc ?s2) = map Inl es'" using tl by simp
  note IH = Cons.IH [OF len tl' rest]
  show ?case unfolding step using IH rp es by auto
qed

text \<open>
  Faults derived from \<open>Exception\<close> on the first passes, and then an outcome \<open>r\<close> that ends
  the loop: a returned value, or a fault that the handler does not catch.
\<close>

lemma retry_loop_faults_then:
  "length es < length js \<Longrightarrow>
   attempt_outcomes run q (Suc (length es)) (proc s) = map Inl es @ [r] \<Longrightarrow>
   \<forall>e\<in>set es. isinstance e Exception \<Longrightarrow>
   \<forall>e. r = Inl e \<longrightarrow> \<not> isinstance e Exception \<Longrightarrow>
   fst (retry_loop run q js s) = (case r of Inl e \<Rightarrow> Some e | Inr v \<Rightarrow> None) \<and>
   attempts (snd (retry_loop run q js s)) = attempts s + Suc (length es) \<and>
   response (snd (retry_loop run q js s)) =
     (case r of Inr v \<Rightarrow> Some v
      | Inl e \<Rightarrow> if es = [] then response s else Some (str (last es))) \<and>
   proc (snd (retry_loop run q js s)) = proc_after run q (Suc (length es)) (proc s)"
proof (induction js arbitrary: s es)
  case Nil
  then show ?case by simp
next
  case (Cons j js)
  obtain r0 p' where rp: "run q (proc s) = (r0, p')" by (cases "run q (proc s)")
  show ?case
  proof (cases es)
    case Nil
    with Cons.prems(2) rp have r0: "r0 = r" by simp
    show ?thesis
    proof (cases r)
      case (Inl e)
      with Cons.prems(4) have "\<not> isinstance e Exception" by simp
      then show ?thesis using rp r0 Inl Nil by (simp add: Let_def)
    next
      case (Inr v)
      then show ?thesis using rp r0 Nil by (simp add: Let_def)
    qed
  next
    case (Cons e es')
    from Cons.prems(2) Cons rp have r0: "r0 = Inl e"
      and tl: "attempt_outcomes run q (Suc (length es')) p' = map Inl es' @ [r]"
      by auto
    from Cons.prems(3) Cons have exc: "isinstance e Exception"
      and rest: "\<forall>e\<in>set es'. isinstance e Exception"
      by auto
    let ?s2 = "s\<lparr>loop_i := Some j, attempts := Suc (attempts s), response := Some (str e), proc := p'\<rparr>"
    have step: "retry_loop run q (j # js) s = retry_loop run q js ?s2"
      using rp r0 exc by (simp add: Let_def)
    have len: "length es' < length js" using Cons.prems(1) Cons by simp
    have tl': "attempt_outcomes run q (Suc (length es')) (proc ?s2) = map Inl es' @ [r]"
      using tl by simp
    note IH = Cons.IH [OF len tl' rest Cons.prems(4)]
    show ?thesis unfolding step using IH rp Cons by (auto split: sum.splits)
  qed
qed

lemma py_range_2: "py_range 2 = [0, 1]"
  by (simp add: py_range_def upt_rec)

lemma py_range_3: "py_range 3 = [0, 1, 2]"
  by (simp add: py_range_def upt_rec)

text \<open>
  Claim C1. Take either retry cell, with its \<open>n\<close> passes (2 in the first cell, 3 in the
  second), and a question for which the \<open>n\<close> consecutive calls of \<^verbatim>\<open>agent_executor.run\<close>
  all raise faults derived from \<open>Exception\<close>. Then the cell ends without an uncaught
  exception, it has called the agent exactly \<open>n\<close> times (the count grows by \<open>n\<close> and the
  process state is the one that \<open>n\<close> calls leave), and \<^verbatim>\<open>response\<close> holds the \<^verbatim>\<open>str\<close> of the
  last fault raised.
\<close>

theorem retry_exhausted_returns_last_fault:
  assumes site: "cell = retry_cell_1 \<and> n = 2 \<or> cell = retry_cell_2 \<and> n = 3"
      and outcomes: "attempt_outcomes run q n (proc s) = map Inl es"
      and faults: "\<forall>e\<in>set es. isinstance e Exception"
  shows "fst (cell run q s) = None \<and>
         attempts (snd (cell run q s)) = attempts s + n \<and>
         response (snd (cell run q s)) = Some (str (last es)) \<and>
         proc (snd (cell run q s)) = proc_after run q n (proc s)"
proof -
  have len: "length es = n"
    using length_attempt_outcomes [of run q n "proc s"] outcomes by simp
  have cell: "cell run q s = retry_loop run q (py_range n) s"
    using site by (auto simp: retry_cell_1_def retry_cell_2_def)
  have n: "length (py_range n) = n" by (simp add: py_range_def)
  have ne: "es \<noteq> []" using len site by auto
  from retry_loop_all_fault [of es "py_range n" run q s] len n outcomes faults ne
  show ?thesis unfolding cell by simp
qed

theorem retry_exhausted_returns_last_fault_witness:
  "attempt_outcomes scripted_agent QUESTION_1 2
      (proc (scripted [Inl (PyExc ValueError ''first''), Inl (PyExc OSError ''second'')]))
     = map Inl [PyExc ValueError ''first'', PyExc OSError ''second''] \<and>
   isinstance (PyExc ValueError ''first'') Exception \<and>
   isinstance (PyExc OSError ''second'') Exception \<and>
   fst (retry_cell_1 scripted_agent QUESTION_1
      (scripted [Inl (PyExc ValueError ''first''), Inl (PyExc OSError ''second'')])) = None \<and>
   attempts (snd (retry_cell_1 scripted_agent QUESTION_1
      (scripted [Inl (PyExc ValueError ''first''), Inl (PyExc OSError ''second'')]))) = 2 \<and>
   response (snd (retry_cell_1 scripted_agent QUESTION_1
      (scripted [Inl (PyExc ValueError ''first''), Inl (PyExc OSError ''second'')]))) = Some ''second'' \<and>
   attempts (snd (retry_cell_2 scripted_agent QUESTION_2
      (scripted [Inl (PyExc ValueError ''first''), Inl (PyExc OSError ''second''),
                 Inl (PyExc (Derived ''OutputParserException'' ValueError) ''third'')]))) = 3 \<and>
   response (snd (retry_cell_2 scripted_agent QUESTION_2
      (scripted [Inl (PyExc ValueError ''first''), Inl (PyExc OSError ''second''),
                 Inl (PyExc (Derived ''OutputParserException'' ValueError) ''third'')]))) = Some ''third''"
  using retry_exhausted_returns_last_fault [of retry_cell_1 2 scripted_agent QUESTION_1
      "scripted [Inl (PyExc ValueError ''first''), Inl (PyExc OSError ''second'')]"
      "[PyExc ValueError ''first'', PyExc OSError ''second'']"]
    retry_exhausted_returns_last_fault [of retry_cell_2 3 scripted_agent QUESTION_2
      "scripted [Inl (PyExc ValueError ''first''), Inl (PyExc OSError ''second''),
                 Inl (PyExc (Derived ''OutputParserException'' ValueError) ''third'')]"
      "[PyExc ValueError ''first'', PyExc OSError ''second'',
        PyExc (Derived ''OutputParserException'' ValueError) ''third'']"]
  by (simp add: numeral_2_eq_2 numeral_3_eq_3 scripted_def fresh_notebook_def scripted_agent_def
      isinstance_def)

text \<open>
  Claim C2. Take either retry cell and a question for which the first attempt raises a
  fault derived from \<open>Exception\<close>, any further attempts before the successful one do so too,
  and an attempt within the cell's \<open>n\<close> passes returns \<open>v\<close>. Then the cell ends without an
  uncaught exception and \<^verbatim>\<open>response\<close> is exactly \<open>v\<close>: the message stored by the earlier
  handler has been overwritten and is no part of the result. No attempt follows the
  successful one: the agent has been called once per fault and once more, and the process
  state is the one those calls leave.
\<close>

theorem retry_returns_success:
  assumes site: "cell = retry_cell_1 \<and> n = 2 \<or> cell = retry_cell_2 \<and> n = 3"
      and first: "es \<noteq> []"
      and later: "length es < n"
      and outcomes: "attempt_outcomes run q (Suc (length es)) (proc s) = map Inl es @ [Inr v]"
      and faults: "\<forall>e\<in>set es. isinstance e Exception"
  shows "fst (cell run q s) = None \<and>
         response (snd (cell run q s)) = Some v \<and>
         attempts (snd (cell run q s)) = attempts s + Suc (length es) \<and>
         proc (snd (cell run q s)) = proc_after run q (Suc (length es)) (proc s)"
proof -
  have cell: "cell run q s = retry_loop run q (py_range n) s"
    using site by (auto simp: retry_cell_1_def retry_cell_2_def)
  have n: "length es < length (py_range n)" using later by (simp add: py_range_def)
  from retry_loop_faults_then [of es "py_range n" run q s "Inr v", OF n outcomes faults]
  show ?thesis unfolding cell by simp
qed

theorem retry_returns_success_witness:
  "attempt_outcomes scripted_agent QUESTION_2
      (Suc (length [PyExc ValueError ''Could not parse LLM output'']))
      (proc (scripted [Inl (PyExc ValueError ''Could not parse LLM output''), Inr ''USD 99'']))
     = map Inl [PyExc ValueError ''Could not parse LLM output''] @ [Inr ''USD 99''] \<and>
   isinstance (PyExc ValueError ''Could not parse LLM output'') Exception \<and>
   fst (retry_cell_2 scripted_agent QUESTION_2
      (scripted [Inl (PyExc ValueError ''Could not parse LLM output''), Inr ''USD 99''])) = None \<and>
   response (snd (retry_cell_2 scripted_agent QUESTION_2
      (scripted [Inl (PyExc ValueError ''Could not parse LLM output''), Inr ''USD 99''])))
     = Some ''USD 99'' \<and>
   attempts (snd (retry_cell_2 scripted_agent QUESTION_2
      (scripted [Inl (PyExc ValueError ''Could not parse LLM output''), Inr ''USD 99''])))
     = 2"
  using retry_returns_success [of retry_cell_2 3 "[PyExc ValueError ''Could not parse LLM output'']"
      scripted_agent QUESTION_2
      "scripted [Inl (PyExc ValueError ''Could not parse LLM output''), Inr ''USD 99'']" "''USD 99''"]
  by (simp add: scripted_def fresh_notebook_def scripted_agent_def isinstance_def)

text \<open>
  Claim C9. The handler is \<^verbatim>\<open>except Exception\<close>. Take either retry cell and a question for
  which, after any number of attempts that raised faults derived from \<open>Exception\<close>, an
  attempt within the cell's \<open>n\<close> passes raises a fault \<open>e\<close> that is not derived from
  \<open>Exception\<close> (a keyboard interrupt). Then \<open>e\<close> leaves the cell uncaught, that attempt is
  the last call of the agent, and the attempt assigns nothing to \<^verbatim>\<open>response\<close>: it keeps
  what it held before (unbound if it was, or the message of the fault before).
\<close>

theorem retry_base_exception_escapes:
  assumes site: "cell = retry_cell_1 \<and> n = 2 \<or> cell = retry_cell_2 \<and> n = 3"
      and later: "length es < n"
      and outcomes: "attempt_outcomes run q (Suc (length es)) (proc s) = map Inl es @ [Inl e]"
      and faults: "\<forall>e\<in>set es. isinstance e Exception"
      and base: "\<not> isinstance e Exception"
  shows "fst (cell run q s) = Some e \<and>
         attempts (snd (cell run q s)) = attempts s + Suc (length es) \<and>
         response (snd (cell run q s)) = (if es = [] then response s else Some (str (last es))) \<and>
         proc (snd (cell run q s)) = proc_after run q (Suc (length es)) (proc s)"
proof -
  have cell: "cell run q s = retry_loop run q (py_range n) s"
    using site by (auto simp: retry_cell_1_def retry_cell_2_def)
  have n: "length es < length (py_range n)" using later by (simp add: py_range_def)
  from retry_loop_faults_then [of es "py_range n" run q s "Inl e", OF n outcomes faults] base
  show ?thesis unfolding cell by simp
qed

theorem retry_base_exception_escapes_witness:
  "attempt_outcomes scripted_agent QUESTION_1 (Suc (length ([] :: py_exc list)))
      (proc (scripted [Inl (PyExc KeyboardInterrupt [])]))
     = map Inl [] @ [Inl (PyExc KeyboardInterrupt [])] \<and>
   \<not> isinstance (PyExc KeyboardInterrupt []) Exception \<and>
   fst (retry_cell_1 scripted_agent QUESTION_1 (scripted [Inl (PyExc KeyboardInterrupt [])]))
     = Some (PyExc KeyboardInterrupt []) \<and>
   attempts (snd (retry_cell_1 scripted_agent QUESTION_1 (scripted [Inl (PyExc KeyboardInterrupt [])])))
     = 1 \<and>
   response (snd (retry_cell_1 scripted_agent QUESTION_1 (scripted [Inl (PyExc KeyboardInterrupt [])])))
     = None"
  using retry_base_exception_escapes [of retry_cell_1 2 "[]" scripted_agent QUESTION_1
      "scripted [Inl (PyExc KeyboardInterrupt [])]" "PyExc KeyboardInterrupt []"]
  by (simp add: scripted_def fresh_notebook_def scripted_agent_def isinstance_def)

section \<open>The search tool: proofs\<close>

lemma two_pages_fields:
  "r \<in> set two_pages \<Longrightarrow> {''title'', ''snippet'', ''url''} \<subseteq> dom r"
  by (auto simp: two_pages_def web_page_def)

lemma example_contract: "search_contract (example_langchain (Inr two_pages))"
  unfolding search_contract_def example_langchain_def
  using two_pages_fields by (auto dest!: in_set_takeD)

text \<open>
  Claim C3. For every query and every limit (5 when the tool is built without one),
  \<^verbatim>\<open>_run\<close> builds the search client with its own \<open>k\<close>, asks it for \<open>k\<close> results for the
  query as given, and returns the sequence \<open>rs\<close> that the client returns, the same records
  in the same order, be it empty. With a search client that keeps its contract this
  sequence has at most \<open>k\<close> records, each with a title, a snippet and a url.
\<close>

theorem run_returns_backend_results:
  assumes contract: "search_contract api"
      and built: "BingSearchAPIWrapper api (k self) p = (Inr bing, p1)"
      and found: "results api bing query (k self) p1 = (Inr rs, p2)"
  shows "MyBingSearch_run api self query p = (Inr rs, p2) \<and>
         length rs \<le> nat (k self) \<and>
         (\<forall>r \<in> set rs. {''title'', ''snippet'', ''url''} \<subseteq> dom r) \<and>
         k (MyBingSearch_init None) = 5"
proof -
  have "MyBingSearch_run api self query p = (Inr rs, p2)"
    using built found by (simp add: MyBingSearch_run_def)
  moreover have "length rs \<le> nat (k self) \<and> (\<forall>r \<in> set rs. {''title'', ''snippet'', ''url''} \<subseteq> dom r)"
    using contract found unfolding search_contract_def by blast
  ultimately show ?thesis by (simp add: MyBingSearch_init_def)
qed

theorem run_returns_backend_results_witness:
  "MyBingSearch_run (example_langchain (Inr two_pages)) (MyBingSearch_init None) ''oil supply''
      with_search_key
     = (Inr two_pages, with_search_key\<lparr>outside := [(''oil supply'', 5)]\<rparr>) \<and>
   length two_pages \<le> nat (k (MyBingSearch_init None)) \<and>
   two_pages \<noteq> []"
  using run_returns_backend_results [of "example_langchain (Inr two_pages)" "MyBingSearch_init None"
      with_search_key "''0123''" with_search_key "''oil supply''" two_pages
      "with_search_key\<lparr>outside := [(''oil supply'', 5)]\<rparr>"]
    example_contract
  by (simp add: example_langchain_def MyBingSearch_init_def with_search_key_def two_pages_def)

text \<open>
  Claim C4. For every tool object, query and process state, the asynchronous entry point
  \<^verbatim>\<open>_arun\<close> raises \<open>NotImplementedError\<close> and never returns a value; it calls no search,
  so the process state is as before. The same holds when the call is issued on a tool
  session.
\<close>

theorem arun_always_raises:
  "MyBingSearch_arun self query p =
     (Inl (PyExc NotImplementedError ''This Tool does not support async''), p) \<and>
   (\<forall>rs p'. MyBingSearch_arun self query p \<noteq> (Inr rs, p')) \<and>
   returned (invoke api s (Async query)) =
     returned s @ [Inl (PyExc NotImplementedError ''This Tool does not support async'')] \<and>
   tool_proc (invoke api s (Async query)) = tool_proc s"
  by (simp add: MyBingSearch_arun_def)

theorem arun_always_raises_witness:
  "returned (invoke (example_langchain (Inr two_pages))
       \<lparr> tool = MyBingSearch_init None, tool_proc = with_search_key, returned = [] \<rparr>
       (Async ''oil supply'')) =
     [Inl (PyExc NotImplementedError ''This Tool does not support async'')] \<and>
   outside (tool_proc (invoke (example_langchain (Inr two_pages))
       \<lparr> tool = MyBingSearch_init None, tool_proc = with_search_key, returned = [] \<rparr>
       (Async ''oil supply''))) = []"
  using arun_always_raises [of "MyBingSearch_init None" "''oil supply''" with_search_key
      "example_langchain (Inr two_pages)"
      "\<lparr> tool = MyBingSearch_init None, tool_proc = with_search_key, returned = [] \<rparr>"]
  by (simp add: with_search_key_def)

lemma tool_invoke: "tool (invoke api s c) = tool s"
proof (cases c)
  case (Sync q)
  then show ?thesis by (simp split: prod.split)
next
  case (Async q)
  then show ?thesis by (simp split: prod.split)
qed

lemma tool_invoke_all: "tool (invoke_all api s invs) = tool s"
  unfolding invoke_all_def by (induction invs arbitrary: s) (simp_all add: tool_invoke)

text \<open>
  Claim C6. Any sequence of synchronous and asynchronous invocations leaves the tool object
  as it was. On a tool built by the constructor, the name is \<^verbatim>\<open>@bing\<close>, the description
  is the class's text and \<open>k\<close> is the constructor's argument (5 without one), after the
  invocations as before them.
\<close>

theorem descriptor_unchanged:
  "tool (invoke_all api s invs) = tool s \<and>
   name (tool (invoke_all api \<lparr> tool = MyBingSearch_init kw, tool_proc = p, returned = [] \<rparr> invs))
     = ''@bing'' \<and>
   description (tool (invoke_all api \<lparr> tool = MyBingSearch_init kw, tool_proc = p, returned = [] \<rparr> invs))
     = ''useful when the questions includes the term: @bing.'' @ [CHR 0x0A] \<and>
   k (tool (invoke_all api \<lparr> tool = MyBingSearch_init kw, tool_proc = p, returned = [] \<rparr> invs))
     = (case kw of None \<Rightarrow> 5 | Some n \<Rightarrow> n)"
  unfolding tool_invoke_all by (simp add: MyBingSearch_init_def)

theorem descriptor_unchanged_witness:
  "name (tool (invoke_all (example_langchain (Inr two_pages))
       \<lparr> tool = MyBingSearch_init (Some 3), tool_proc = with_search_key, returned = [] \<rparr>
       [Sync ''oil supply'', Async ''oil supply'', Sync ''crude''])) = ''@bing'' \<and>
   k (tool (invoke_all (example_langchain (Inr two_pages))
       \<lparr> tool = MyBingSearch_init (Some 3), tool_proc = with_search_key, returned = [] \<rparr>
       [Sync ''oil supply'', Async ''oil supply'', Sync ''crude''])) = 3"
  using descriptor_unchanged [of "example_langchain (Inr two_pages)"
      "\<lparr> tool = MyBingSearch_init (Some 3), tool_proc = with_search_key, returned = [] \<rparr>"
      "[Sync ''oil supply'', Async ''oil supply'', Sync ''crude'']" "Some 3" with_search_key]
  by (simp add: MyBingSearch_init_def)

text \<open>
  Claim C7. When the search call \<^verbatim>\<open>results\<close> raises a fault \<open>e\<close>, of whatever class,
  \<^verbatim>\<open>_run\<close> raises the same \<open>e\<close>, and the process state is the one that this single call
  of \<^verbatim>\<open>results\<close> left: nothing is caught or changed and no second call is made.
\<close>

theorem run_propagates_backend_fault:
  assumes built: "BingSearchAPIWrapper api (k self) p = (Inr bing, p1)"
      and fault: "results api bing query (k self) p1 = (Inl e, p2)"
  shows "MyBingSearch_run api self query p = (Inl e, p2)"
  using assms by (simp add: MyBingSearch_run_def)

theorem run_propagates_backend_fault_witness:
  "MyBingSearch_run (example_langchain (Inl (PyExc ConnectionError ''connection refused'')))
      (MyBingSearch_init None) ''oil supply'' with_search_key
     = (Inl (PyExc ConnectionError ''connection refused''),
        with_search_key\<lparr>outside := [(''oil supply'', 5)]\<rparr>)"
  using run_propagates_backend_fault
      [of "example_langchain (Inl (PyExc ConnectionError ''connection refused''))"
        "MyBingSearch_init None" with_search_key "''0123''" with_search_key "''oil supply''"
        "PyExc ConnectionError ''connection refused''"
        "with_search_key\<lparr>outside := [(''oil supply'', 5)]\<rparr>"]
  by (simp add: example_langchain_def MyBingSearch_init_def with_search_key_def)

text \<open>
  Claim C10. \<^verbatim>\<open>_run\<close> does not look at the query. For the empty string, once the search
  client is built, what \<^verbatim>\<open>_run\<close> returns or raises is what the client's \<^verbatim>\<open>results\<close>
  returns or raises for the empty string and \<open>k\<close> results.
\<close>

theorem run_forwards_empty_query:
  assumes built: "BingSearchAPIWrapper api (k self) p = (Inr bing, p1)"
  shows "MyBingSearch_run api self [] p = results api bing [] (k self) p1"
  using assms by (simp add: MyBingSearch_run_def)

theorem run_forwards_empty_query_witness:
  "MyBingSearch_run (example_langchain (Inr two_pages)) (MyBingSearch_init None) []
      with_search_key
     = (Inr two_pages, with_search_key\<lparr>outside := [([], 5)]\<rparr>)"
  using run_forwards_empty_query [of "example_langchain (Inr two_pages)" "MyBingSearch_init None"
      with_search_key "''0123''" with_search_key]
  by (simp add: example_langchain_def MyBingSearch_init_def with_search_key_def two_pages_def)

section \<open>Rendering: proofs\<close>

lemma py_replace_char:
  "py_replace [c] new s = concat (map (\<lambda>x. if x = c then new else [x]) s)"
proof (induction s)
  case Nil
  show ?case by (subst py_replace.simps) simp
next
  case (Cons x xs)
  show ?case
  proof (cases "x = c")
    case True
    have "py_replace [c] new (x # xs) = new @ py_replace [c] new xs"
      using True by (subst py_replace.simps) simp
    then show ?thesis using Cons.IH True by simp
  next
    case False
    have "py_replace [c] new (x # xs) = x # py_replace [c] new xs"
      using False by (subst py_replace.simps) simp
    then show ?thesis using Cons.IH False by simp
  qed
qed






section \<open>Configuration errors: proofs\<close>

lemma set_env_missing:
  assumes "environ p0 ''AZURE_OPENAI_ENDPOINT'' = None \<or>
           environ p0 ''AZURE_OPENAI_API_KEY'' = None \<or>
           environ p0 ''AZURE_OPENAI_API_VERSION'' = None"
  shows "\<exists>e p1. set_env_variables p0 = (Some e, p1) \<and> exc_class e = KeyError"
  using assms
  by (auto simp: set_env_variables_def copy_environ_def split: option.splits)

lemma bootstrap_env_missing:
  assumes "environ p0 ''AZURE_OPENAI_ENDPOINT'' = None \<or>
           environ p0 ''AZURE_OPENAI_API_KEY'' = None \<or>
           environ p0 ''AZURE_OPENAI_API_VERSION'' = None"
  shows "\<exists>e p1. bootstrap lc prefix p0 = (Inl e, p1) \<and> exc_class e = KeyError"
proof -
  from set_env_missing [OF assms] obtain e p1
    where "set_env_variables p0 = (Some e, p1)" and "exc_class e = KeyError" by blast
  then show ?thesis by (simp add: bootstrap_def)
qed

lemma run_all_bootstrap_fault:
  "bootstrap lc prefix p0 = (Inl e, p1) \<Longrightarrow>
   run_all lc Markdown prefix p0 = (Some e, fresh_notebook p1)"
  by (simp add: run_all_def)

lemma run_constructor_fault:
  "BingSearchAPIWrapper api (k self) p = (Inl eb, p') \<Longrightarrow>
   MyBingSearch_run api self query p = (Inl eb, p')"
  by (simp add: MyBingSearch_run_def)

text \<open>
  Claim C8, as the code has it. A fault raised by the composition cells ends the notebook
  uncaught, before any call of the agent and with \<^verbatim>\<open>response\<close> unbound. The composition
  raises \<open>KeyError\<close> when the endpoint, the key or the API version of the LLM service is not
  set; the environment mapping looks at nothing else, so with the three variables set,
  whatever their values, it raises nothing. A fault raised by either construction of the
  LLM client is a fault of the composition. Once the mapping and both constructions have
  succeeded, the outcome of the composition is the outcome of \<^verbatim>\<open>initialize_agent\<close>: the
  composition cells themselves construct no search client. The search client is built
  inside \<^verbatim>\<open>_run\<close>, at every invocation, and \<^verbatim>\<open>_run\<close> raises what the constructor
  raises. A fault derived from \<open>Exception\<close> that leaves \<^verbatim>\<open>agent_executor.run\<close>, such as a
  configuration error of the search client or a credential that only the service refuses,
  is caught by the handler of the retry loop, which stores its \<^verbatim>\<open>str\<close> in \<^verbatim>\<open>response\<close>
  and goes on with the passes that remain.
\<close>

theorem configuration_errors:
  "(bootstrap lc prefix p0 = (Inl e, p1) \<longrightarrow>
      run_all lc Markdown prefix p0 = (Some e, fresh_notebook p1) \<and>
      attempts (snd (run_all lc Markdown prefix p0)) = 0 \<and>
      response (snd (run_all lc Markdown prefix p0)) = None) \<and>
   (environ p0 ''AZURE_OPENAI_ENDPOINT'' = None \<or> environ p0 ''AZURE_OPENAI_API_KEY'' = None \<or>
    environ p0 ''AZURE_OPENAI_API_VERSION'' = None \<longrightarrow>
      (\<exists>e' p'. bootstrap lc prefix p0 = (Inl e', p') \<and> exc_class e' = KeyError)) \<and>
   (environ pa ''AZURE_OPENAI_ENDPOINT'' = Some v1 \<and> environ pa ''AZURE_OPENAI_API_KEY'' = Some v2 \<and>
    environ pa ''AZURE_OPENAI_API_VERSION'' = Some v3 \<longrightarrow>
      fst (set_env_variables pa) = None) \<and>
   (set_env_variables pa = (None, pb) \<and>
    AzureChatOpenAI lc \<lparr> deployment_name = MODEL_DEPLOYMENT_NAME, temperature = 0,
       max_tokens = 1000, streaming = False \<rparr> pb = (Inl ea, pc) \<longrightarrow>
      bootstrap lc prefix pa = (Inl ea, pc)) \<and>
   (set_env_variables pa = (None, pb) \<and>
    AzureChatOpenAI lc \<lparr> deployment_name = MODEL_DEPLOYMENT_NAME, temperature = 0,
       max_tokens = 1000, streaming = False \<rparr> pb = (Inr l1, pc) \<and>
    AzureChatOpenAI lc \<lparr> deployment_name = MODEL_DEPLOYMENT_NAME, temperature = 0,
       max_tokens = 1000, streaming = True \<rparr> pc = (Inl ea, pd) \<longrightarrow>
      bootstrap lc prefix pa = (Inl ea, pd)) \<and>
   (set_env_variables pa = (None, pb) \<and>
    AzureChatOpenAI lc \<lparr> deployment_name = MODEL_DEPLOYMENT_NAME, temperature = 0,
       max_tokens = 1000, streaming = False \<rparr> pb = (Inr l1, pc) \<and>
    AzureChatOpenAI lc \<lparr> deployment_name = MODEL_DEPLOYMENT_NAME, temperature = 0,
       max_tokens = 1000, streaming = True \<rparr> pc = (Inr llm, pd) \<longrightarrow>
      bootstrap lc prefix pa =
        initialize_agent lc [as_base_tool lc (MyBingSearch_init (Some 5))] llm prefix pd) \<and>
   (BingSearchAPIWrapper api (k self) p = (Inl eb, p') \<longrightarrow>
      MyBingSearch_run api self query p = (Inl eb, p')) \<and>
   (run q (proc s) = (Inl eb, p') \<and> isinstance eb Exception \<longrightarrow>
      retry_loop run q (i # rest) s =
        retry_loop run q rest
          (s\<lparr>loop_i := Some i, attempts := Suc (attempts s), response := Some (str eb), proc := p'\<rparr>))"
proof (intro conjI impI)
  assume "bootstrap lc prefix p0 = (Inl e, p1)"
  then have r: "run_all lc Markdown prefix p0 = (Some e, fresh_notebook p1)"
    by (rule run_all_bootstrap_fault)
  show "run_all lc Markdown prefix p0 = (Some e, fresh_notebook p1)" by (rule r)
  show "attempts (snd (run_all lc Markdown prefix p0)) = 0" by (simp add: r fresh_notebook_def)
  show "response (snd (run_all lc Markdown prefix p0)) = None" by (simp add: r fresh_notebook_def)
next
  assume "environ p0 ''AZURE_OPENAI_ENDPOINT'' = None \<or> environ p0 ''AZURE_OPENAI_API_KEY'' = None \<or>
    environ p0 ''AZURE_OPENAI_API_VERSION'' = None"
  then show "\<exists>e' p'. bootstrap lc prefix p0 = (Inl e', p') \<and> exc_class e' = KeyError"
    by (rule bootstrap_env_missing)
next
  assume "environ pa ''AZURE_OPENAI_ENDPOINT'' = Some v1 \<and> environ pa ''AZURE_OPENAI_API_KEY'' = Some v2 \<and>
    environ pa ''AZURE_OPENAI_API_VERSION'' = Some v3"
  then show "fst (set_env_variables pa) = None"
    by (simp add: set_env_variables_def copy_environ_def)
next
  assume "set_env_variables pa = (None, pb) \<and>
    AzureChatOpenAI lc \<lparr> deployment_name = MODEL_DEPLOYMENT_NAME, temperature = 0,
       max_tokens = 1000, streaming = False \<rparr> pb = (Inl ea, pc)"
  then show "bootstrap lc prefix pa = (Inl ea, pc)"
    by (simp add: bootstrap_def)
next
  assume "set_env_variables pa = (None, pb) \<and>
    AzureChatOpenAI lc \<lparr> deployment_name = MODEL_DEPLOYMENT_NAME, temperature = 0,
       max_tokens = 1000, streaming = False \<rparr> pb = (Inr l1, pc) \<and>
    AzureChatOpenAI lc \<lparr> deployment_name = MODEL_DEPLOYMENT_NAME, temperature = 0,
       max_tokens = 1000, streaming = True \<rparr> pc = (Inl ea, pd)"
  then show "bootstrap lc prefix pa = (Inl ea, pd)"
    by (simp add: bootstrap_def)
next
  assume "set_env_variables pa = (None, pb) \<and>
    AzureChatOpenAI lc \<lparr> deployment_name = MODEL_DEPLOYMENT_NAME, temperature = 0,
       max_tokens = 1000, streaming = False \<rparr> pb = (Inr l1, pc) \<and>
    AzureChatOpenAI lc \<lparr> deployment_name = MODEL_DEPLOYMENT_NAME, temperature = 0,
       max_tokens = 1000, streaming = True \<rparr> pc = (Inr llm, pd)"
  then show "bootstrap lc prefix pa =
        initialize_agent lc [as_base_tool lc (MyBingSearch_init (Some 5))] llm prefix pd"
    by (simp add: bootstrap_def)
next
  assume "BingSearchAPIWrapper api (k self) p = (Inl eb, p')"
  then show "MyBingSearch_run api self query p = (Inl eb, p')"
    by (rule run_constructor_fault)
next
  assume "run q (proc s) = (Inl eb, p') \<and> isinstance eb Exception"
  then show "retry_loop run q (i # rest) s =
        retry_loop run q rest
          (s\<lparr>loop_i := Some i, attempts := Suc (attempts s), response := Some (str eb), proc := p'\<rparr>)"
    by (simp add: Let_def)
qed

theorem configuration_errors_witness:
  "fst (run_all (refusing_llm False) (ipython_Markdown offline one_file) ''Answer with sources.'' bare)
     = Some (PyExc KeyError ([CHR 0x27] @ ''AZURE_OPENAI_ENDPOINT'' @ [CHR 0x27])) \<and>
   attempts (snd (run_all (refusing_llm False) (ipython_Markdown offline one_file)
      ''Answer with sources.'' bare)) = 0 \<and>
   fst (set_env_variables with_llm_credentials) = None \<and>
   fst (bootstrap (refusing_llm False) ''Answer with sources.'' with_llm_credentials)
     = Inl (PyExc ValueError ''Invalid API configuration'') \<and>
   fst (bootstrap (refusing_llm True) ''Answer with sources.'' with_llm_credentials)
     = Inl (PyExc ValueError ''Invalid API configuration'') \<and>
   \<not> isl (fst (bootstrap (example_langchain (Inr two_pages)) ''Answer with sources.''
      with_llm_credentials)) \<and>
   fst (MyBingSearch_run (example_langchain (Inr two_pages)) (MyBingSearch_init (Some 5))
          QUESTION_1 with_llm_credentials)
     = Inl (PyExc ValueError ''Did not find bing_subscription_key'') \<and>
   response (snd (retry_loop
       (relay_agent [as_base_tool (example_langchain (Inr two_pages)) (MyBingSearch_init (Some 5))])
       QUESTION_1 [1] (fresh_notebook with_llm_credentials)))
     = Some ''Did not find bing_subscription_key''"
  using configuration_errors [where lc = "refusing_llm False"
      and Markdown = "ipython_Markdown offline one_file"
      and prefix = "''Answer with sources.''"
      and ?p0.0 = bare
      and e = "PyExc KeyError ([CHR 0x27] @ ''AZURE_OPENAI_ENDPOINT'' @ [CHR 0x27])"
      and ?p1.0 = bare
      and pa = with_llm_credentials
      and ?v1.0 = "''https://example.openai.azure.com/''" and ?v2.0 = "''4567''"
      and ?v3.0 = "''2023-05-15''"
      and pb = "snd (set_env_variables with_llm_credentials)"
      and ea = "PyExc ValueError ''Invalid API configuration''"
      and pc = "snd (set_env_variables with_llm_credentials)"
      and api = "example_langchain (Inr two_pages)"
      and self = "MyBingSearch_init (Some 5)"
      and p = with_llm_credentials
      and eb = "PyExc ValueError ''Did not find bing_subscription_key''"
      and p' = with_llm_credentials
      and query = QUESTION_1
      and run = "relay_agent [as_base_tool (example_langchain (Inr two_pages)) (MyBingSearch_init (Some 5))]"
      and q = QUESTION_1
      and s = "fresh_notebook with_llm_credentials"
      and i = 1 and rest = "[]"]
    configuration_errors [where lc = "refusing_llm True"
      and prefix = "''Answer with sources.''"
      and pa = with_llm_credentials
      and pb = "snd (set_env_variables with_llm_credentials)"
      and ?l1.0 = "()"
      and pc = "snd (set_env_variables with_llm_credentials)"
      and ea = "PyExc ValueError ''Invalid API configuration''"
      and pd = "snd (set_env_variables with_llm_credentials)"]
    configuration_errors [where lc = "example_langchain (Inr two_pages)"
      and prefix = "''Answer with sources.''"
      and pa = with_llm_credentials
      and pb = "snd (set_env_variables with_llm_credentials)"
      and ?l1.0 = "()"
      and pc = "snd (set_env_variables with_llm_credentials)"
      and llm = "()"
      and pd = "snd (set_env_variables with_llm_credentials)"]
  by (simp add: refusing_llm_def bare_def bootstrap_def set_env_variables_def copy_environ_def
      with_llm_credentials_def example_langchain_def fresh_notebook_def relay_agent_def
      as_base_tool_def MyBingSearch_run_def MyBingSearch_init_def isinstance_def)

text \<open>
  Two runs of the whole notebook. In the first the variables of the LLM service are set
  and the key of the search service is missing: the composition raises nothing, the fault
  is raised by \<^verbatim>\<open>_run\<close> in each of the five calls of the agent, the notebook ends without
  an uncaught exception, and the answer it displays is the message of the fault. In the
  second every variable is set and the key of the LLM service is wrong: the composition
  raises nothing, the service refuses each of the five calls of the agent, and the
  notebook ends without an uncaught exception, the refusal being its answer.
\<close>

theorem configuration_error_caught_counterexample:
  "\<not> isl (fst (bootstrap (example_langchain (Inr two_pages)) ''Answer with sources.''
      with_llm_credentials)) \<and>
   fst (MyBingSearch_run (example_langchain (Inr two_pages)) (MyBingSearch_init (Some 5)) QUESTION_1
          (snd (set_env_variables with_llm_credentials)))
     = Inl (PyExc ValueError ''Did not find bing_subscription_key'') \<and>
   fst (run_all (example_langchain (Inr two_pages)) (ipython_Markdown offline one_file)
      ''Answer with sources.'' with_llm_credentials) = None \<and>
   response (snd (run_all (example_langchain (Inr two_pages)) (ipython_Markdown offline one_file)
      ''Answer with sources.'' with_llm_credentials))
     = Some ''Did not find bing_subscription_key'' \<and>
   attempts (snd (run_all (example_langchain (Inr two_pages)) (ipython_Markdown offline one_file)
      ''Answer with sources.'' with_llm_credentials)) = 5 \<and>
   displayed (snd (run_all (example_langchain (Inr two_pages)) (ipython_Markdown offline one_file)
      ''Answer with sources.'' with_llm_credentials))
     = [''Did not find bing_subscription_key'', ''Did not find bing_subscription_key'',
        ''Answer with sources.''] \<and>
   \<not> isl (fst (bootstrap authenticating_langchain ''Answer with sources.'' with_wrong_llm_key)) \<and>
   fst (run_all authenticating_langchain (ipython_Markdown offline one_file)
      ''Answer with sources.'' with_wrong_llm_key) = None \<and>
   response (snd (run_all authenticating_langchain (ipython_Markdown offline one_file)
      ''Answer with sources.'' with_wrong_llm_key))
     = Some ''Incorrect API key provided'' \<and>
   attempts (snd (run_all authenticating_langchain (ipython_Markdown offline one_file)
      ''Answer with sources.'' with_wrong_llm_key)) = 5"
  by (simp add: run_all_def bootstrap_def set_env_variables_def copy_environ_def
      with_llm_credentials_def with_wrong_llm_key_def example_langchain_def
      authenticating_langchain_def authenticating_agent_def fresh_notebook_def retry_cell_1_def
      retry_cell_2_def py_range_2 py_range_3 relay_agent_def as_base_tool_def MyBingSearch_run_def
      MyBingSearch_init_def isinstance_def then_cell_def printmd_response_def printmd_def Let_def
      py_replace_char ipython_Markdown_def offline_def one_file_def)

end
